theory Spec2Isabelle
  imports Main "HOL-Library.List_Lexorder" "HOL-Library.Char_ord" "HOL-Library.Sublist"
begin

section \<open>The timeline filter of \<^verbatim>\<open>src/timeline-filter.js\<close>\<close>

text \<open>
  The class \<^verbatim>\<open>TimelineFilter\<close> keeps a deep copy of the loaded dataset, two sets of
  active labels, and the data it last handed to the rendering widget. This theory embeds
  the class method by method. JavaScript values are restricted to the shape the filter
  reads: an object with an \<^verbatim>\<open>events\<close> array and an optional \<^verbatim>\<open>eras\<close> array; an event
  with an optional string \<^verbatim>\<open>group\<close>; an era with an optional object \<^verbatim>\<open>text\<close> that has an
  optional string \<^verbatim>\<open>headline\<close>. A property that is absent (reads as \<^verbatim>\<open>undefined\<close>) is
  \<open>None\<close>. All the other properties of an object are carried along in one opaque field
  of type \<open>'x\<close>.

  A string is the list of its code units. The type \<open>'u\<close> of a code unit is a parameter
  with a linear order: the default \<^verbatim>\<open>Array.prototype.sort\<close> compares strings unit by unit,
  a proper prefix first, which is the lexicographic order of \<^theory_text>\<open>List_Lexorder\<close>.
  The examples use \<open>char\<close> for the units.
\<close>

subsection \<open>Faults\<close>

text \<open>
  Reading a property of \<^verbatim>\<open>undefined\<close> throws a \<^verbatim>\<open>TypeError\<close>. A method that throws has
  already changed the object; the page goes on with that object when the next button is
  pressed. So a call has two outcomes, each with the state it leaves.
\<close>

datatype error = TypeError

datatype 's outcome = Returns 's | Throws error 's

fun state_of :: "'s outcome \<Rightarrow> 's" where
  "state_of (Returns s) = s"
| "state_of (Throws e s) = s"

fun returns :: "'s outcome \<Rightarrow> bool" where
  "returns (Returns s) = True"
| "returns (Throws e s) = False"

subsection \<open>The data\<close>

type_synonym 'u label = "'u list"

record ('u, 'x) event =
  group :: "'u label option"
  event_fields :: 'x

record ('u, 'x) era_text =
  headline :: "'u label option"
  text_fields :: 'x

record ('u, 'x) era =
  text' :: "('u, 'x) era_text option"
  era_fields :: 'x

record ('u, 'x) timeline_data =
  events :: "('u, 'x) event list"
  eras :: "('u, 'x) era list option"
  data_fields :: 'x

text \<open>
  A filter button of the page: the ``Show All'' button of a region, or the button of one
  label with its \<^verbatim>\<open>active\<close> class on or off.
\<close>

datatype 'u button = ShowAll | FilterBtn "'u label" bool

text \<open>
  The object and the three regions of the page it writes: \<open>group_filters\<close> and
  \<open>era_filters\<close> are the children of \<^verbatim>\<open>#group-filters\<close> and \<^verbatim>\<open>#era-filters\<close>,
  \<open>filter_status\<close> is the text of \<^verbatim>\<open>#filter-status\<close>, and \<open>timeline\<close> is the data the
  widget \<^verbatim>\<open>TL.Timeline\<close> was last built from (\<open>None\<close> for \<^verbatim>\<open>null\<close>). The two active sets
  are only asked for membership and size, never iterated, so they are sets of labels.
\<close>

record ('u, 'x) TimelineFilter =
  originalData :: "('u, 'x) timeline_data"
  currentData :: "('u, 'x) timeline_data"
  timeline :: "('u, 'x) timeline_data option"
  activeGroupFilters :: "'u label set"
  activeEraFilters :: "'u label set"
  group_filters :: "'u button list"
  era_filters :: "'u button list"
  filter_status :: string

subsection \<open>The label vocabularies\<close>

text \<open>
  \<^verbatim>\<open>Array.from\<close> lists a \<^verbatim>\<open>Set\<close> in insertion order, so the set a vocabulary is
  collected in is a list without repetition: \<open>Set_add\<close> appends a value that is new.
  A string is truthy when it is not empty.
\<close>

definition Set_add :: "'a \<Rightarrow> 'a list \<Rightarrow> 'a list" where
  "Set_add x xs = (if x \<in> set xs then xs else xs @ [x])"

definition truthy :: "'u label option \<Rightarrow> bool" where
  "truthy v = (case v of None \<Rightarrow> False | Some l \<Rightarrow> l \<noteq> [])"

definition getUniqueGroups :: "('u::linorder, 'x) TimelineFilter \<Rightarrow> 'u label list" where
  "getUniqueGroups s =
     sort (foldl (\<lambda>groups event.
                    case group event of
                      None \<Rightarrow> groups
                    | Some g \<Rightarrow> if truthy (Some g) then Set_add g groups else groups)
                 [] (events (originalData s)))"

definition getUniqueEras :: "('u::linorder, 'x) TimelineFilter \<Rightarrow> 'u label list" where
  "getUniqueEras s =
     sort (case eras (originalData s) of
             None \<Rightarrow> []
           | Some es \<Rightarrow>
               foldl (\<lambda>acc era.
                        case text' era of
                          None \<Rightarrow> acc
                        | Some t \<Rightarrow>
                            (case headline t of
                               None \<Rightarrow> acc
                             | Some h \<Rightarrow> if truthy (Some h) then Set_add h acc else acc))
                     [] es)"

subsection \<open>The buttons\<close>

definition generateGroupButtons ::
  "('u::linorder, 'x) TimelineFilter \<Rightarrow> ('u, 'x) TimelineFilter" where
  "generateGroupButtons s =
     s\<lparr>group_filters :=
         ShowAll # map (\<lambda>g. FilterBtn g False) (filter (\<lambda>g. truthy (Some g)) (getUniqueGroups s))\<rparr>"

definition generateEraButtons ::
  "('u::linorder, 'x) TimelineFilter \<Rightarrow> ('u, 'x) TimelineFilter" where
  "generateEraButtons s =
     s\<lparr>era_filters :=
         ShowAll # map (\<lambda>e. FilterBtn e False) (filter (\<lambda>e. truthy (Some e)) (getUniqueEras s))\<rparr>"

definition generateFilterButtons ::
  "('u::linorder, 'x) TimelineFilter \<Rightarrow> ('u, 'x) TimelineFilter" where
  "generateFilterButtons s = generateEraButtons (generateGroupButtons s)"

text \<open>
  A handler is bound to its label and its button together, so the button a toggle
  changes is the one that shows the label. \<open>classList_set l a\<close> puts the \<^verbatim>\<open>active\<close>
  class of that button on or off; \<open>classList_remove\<close> takes it off a button that is not
  a ``Show All'' button.
\<close>

fun classList_set :: "'u label \<Rightarrow> bool \<Rightarrow> 'u button \<Rightarrow> 'u button" where
  "classList_set l a ShowAll = ShowAll"
| "classList_set l a (FilterBtn l' a') = (if l' = l then FilterBtn l' a else FilterBtn l' a')"

fun classList_remove :: "'u button \<Rightarrow> 'u button" where
  "classList_remove ShowAll = ShowAll"
| "classList_remove (FilterBtn l a) = FilterBtn l False"

subsection \<open>The widget and the status line\<close>

text \<open>
  The widget is opaque: \<open>createTimeline\<close> records the data it is built from, which
  replaces what the region \<^verbatim>\<open>#timeline-embed\<close> showed. The page is taken to have the
  regions the methods look up.
\<close>

definition createTimeline :: "('u, 'x) TimelineFilter \<Rightarrow> ('u, 'x) TimelineFilter" where
  "createTimeline s = s\<lparr>timeline := Some (currentData s)\<rparr>"

definition recreateTimeline :: "('u, 'x) TimelineFilter \<Rightarrow> ('u, 'x) TimelineFilter" where
  "recreateTimeline s = createTimeline s"

text \<open>A template literal prints a length in decimal; \<^verbatim>\<open>join\<close> puts the separator between the parts.\<close>

definition digit :: "nat \<Rightarrow> char" where
  "digit d = ''0123456789'' ! d"

function showNat :: "nat \<Rightarrow> string" where
  "showNat n = (if n < 10 then [digit n] else showNat (n div 10) @ [digit (n mod 10)])"
  by pat_completeness auto
termination
  by (relation "measure (\<lambda>n. n)") auto

declare showNat.simps [simp del]

fun join :: "string \<Rightarrow> string list \<Rightarrow> string" where
  "join sep [] = []"
| "join sep [p] = p"
| "join sep (p # q # ps) = p @ sep @ join sep (q # ps)"

definition updateFilterStatus :: "('u, 'x) TimelineFilter \<Rightarrow> ('u, 'x) TimelineFilter" where
  "updateFilterStatus s =
     (let totalEvents = length (events (originalData s));
          filteredEvents = length (events (currentData s));
          totalEras = (case eras (originalData s) of Some es \<Rightarrow> length es | None \<Rightarrow> 0);
          filteredEras = (case eras (currentData s) of Some es \<Rightarrow> length es | None \<Rightarrow> 0)
      in if activeGroupFilters s = {} \<and> activeEraFilters s = {}
         then s\<lparr>filter_status := ''Showing all events''\<rparr>
         else
           let parts = [];
               parts = (if activeGroupFilters s \<noteq> {}
                        then parts @ [showNat filteredEvents @ ''/'' @ showNat totalEvents @ '' events'']
                        else parts);
               parts = (if activeEraFilters s \<noteq> {}
                        then parts @ [showNat filteredEras @ ''/'' @ showNat totalEras @ '' eras'']
                        else parts)
           in s\<lparr>filter_status := ''Showing '' @ join '', '' parts\<rparr>)"

subsection \<open>Filtering\<close>

text \<open>
  The active sets hold labels only, so \<^verbatim>\<open>has(undefined)\<close> is false. The callback of the
  era filter reads \<^verbatim>\<open>era.text.headline\<close>: it throws at an era whose \<^verbatim>\<open>text\<close> is absent,
  and \<^verbatim>\<open>filter\<close> throws with it.
\<close>

definition has :: "'u label set \<Rightarrow> 'u label option \<Rightarrow> bool" where
  "has A v = (case v of None \<Rightarrow> False | Some l \<Rightarrow> l \<in> A)"

fun filter_eras :: "'u label set \<Rightarrow> ('u, 'x) era list \<Rightarrow> error + ('u, 'x) era list" where
  "filter_eras A [] = Inr []"
| "filter_eras A (era # es) =
     (case text' era of
        None \<Rightarrow> Inl TypeError
      | Some t \<Rightarrow>
          (case filter_eras A es of
             Inl e \<Rightarrow> Inl e
           | Inr kept \<Rightarrow> Inr (if has A (headline t) then era # kept else kept)))"

definition applyFilters :: "('u, 'x) TimelineFilter \<Rightarrow> ('u, 'x) TimelineFilter outcome" where
  "applyFilters s =
     (let s = s\<lparr>currentData := originalData s\<rparr>;
          s = (if activeGroupFilters s \<noteq> {}
               then s\<lparr>currentData := (currentData s)
                        \<lparr>events := filter (\<lambda>event. has (activeGroupFilters s) (group event))
                                          (events (currentData s))\<rparr>\<rparr>
               else s)
      in if activeEraFilters s \<noteq> {}
         then (case eras (currentData s) of
                 None \<Rightarrow> Returns (updateFilterStatus (recreateTimeline s))
               | Some es \<Rightarrow>
                   (case filter_eras (activeEraFilters s) es of
                      Inl e \<Rightarrow> Throws e s
                    | Inr kept \<Rightarrow>
                        Returns (updateFilterStatus (recreateTimeline
                          (s\<lparr>currentData := (currentData s)\<lparr>eras := Some kept\<rparr>\<rparr>)))))
         else Returns (updateFilterStatus (recreateTimeline s)))"

subsection \<open>The handlers and the constructor\<close>

definition toggleGroupFilter ::
  "'u label \<Rightarrow> ('u, 'x) TimelineFilter \<Rightarrow> ('u, 'x) TimelineFilter outcome" where
  "toggleGroupFilter g s =
     applyFilters
       (if g \<in> activeGroupFilters s
        then s\<lparr>activeGroupFilters := activeGroupFilters s - {g},
               group_filters := map (classList_set g False) (group_filters s)\<rparr>
        else s\<lparr>activeGroupFilters := insert g (activeGroupFilters s),
               group_filters := map (classList_set g True) (group_filters s)\<rparr>)"

definition toggleEraFilter ::
  "'u label \<Rightarrow> ('u, 'x) TimelineFilter \<Rightarrow> ('u, 'x) TimelineFilter outcome" where
  "toggleEraFilter e s =
     applyFilters
       (if e \<in> activeEraFilters s
        then s\<lparr>activeEraFilters := activeEraFilters s - {e},
               era_filters := map (classList_set e False) (era_filters s)\<rparr>
        else s\<lparr>activeEraFilters := insert e (activeEraFilters s),
               era_filters := map (classList_set e True) (era_filters s)\<rparr>)"

definition clearGroupFilters ::
  "('u, 'x) TimelineFilter \<Rightarrow> ('u, 'x) TimelineFilter outcome" where
  "clearGroupFilters s =
     applyFilters (s\<lparr>activeGroupFilters := {},
                     group_filters := map classList_remove (group_filters s)\<rparr>)"

definition clearEraFilters ::
  "('u, 'x) TimelineFilter \<Rightarrow> ('u, 'x) TimelineFilter outcome" where
  "clearEraFilters s =
     applyFilters (s\<lparr>activeEraFilters := {},
                     era_filters := map classList_remove (era_filters s)\<rparr>)"

definition init :: "('u::linorder, 'x) TimelineFilter \<Rightarrow> ('u, 'x) TimelineFilter" where
  "init s = updateFilterStatus (createTimeline (generateFilterButtons s))"

text \<open>
  The constructor copies the data twice through JSON, which gives back an equal value,
  and runs \<open>init\<close>. What the three regions of the page held before is overwritten.
\<close>

definition constructor :: "('u::linorder, 'x) timeline_data \<Rightarrow> ('u, 'x) TimelineFilter" where
  "constructor timelineData =
     init \<lparr>originalData = timelineData, currentData = timelineData, timeline = None,
           activeGroupFilters = {}, activeEraFilters = {},
           group_filters = [], era_filters = [], filter_status = []\<rparr>"

text \<open>
  The buttons of the page call the four handlers. When a handler throws, the page keeps
  the object as the handler left it, and the next press runs on that.
\<close>

datatype 'u action = ToggleGroup "'u label" | ToggleEra "'u label" | ClearGroups | ClearEras

fun perform :: "'u action \<Rightarrow> ('u, 'x) TimelineFilter \<Rightarrow> ('u, 'x) TimelineFilter outcome" where
  "perform (ToggleGroup g) s = toggleGroupFilter g s"
| "perform (ToggleEra e) s = toggleEraFilter e s"
| "perform ClearGroups s = clearGroupFilters s"
| "perform ClearEras s = clearEraFilters s"

fun run :: "'u action list \<Rightarrow> ('u, 'x) TimelineFilter \<Rightarrow> ('u, 'x) TimelineFilter" where
  "run [] s = s"
| "run (a # as) s = run as (state_of (perform a s))"

subsection \<open>Example data\<close>

text \<open>
  Records with no property but the ones the filter reads, and the datasets of the
  scenarios: three events in the groups A, B, A; a vocabulary with repeated, empty and
  absent labels; ten events of which four are in group A, with three eras; an era
  that has no \<^verbatim>\<open>text\<close> beside one that has; and a dataset whose records have
  other properties, kept as strings.
\<close>

definition plain_event :: "string option \<Rightarrow> (char, unit) event" where
  "plain_event g = \<lparr>group = g, event_fields = ()\<rparr>"

definition plain_text :: "string option \<Rightarrow> (char, unit) era_text" where
  "plain_text h = \<lparr>headline = h, text_fields = ()\<rparr>"

definition plain_era :: "(char, unit) era_text option \<Rightarrow> (char, unit) era" where
  "plain_era t = \<lparr>text' = t, era_fields = ()\<rparr>"

definition scenario_data :: "(char, unit) timeline_data" where
  "scenario_data =
     \<lparr>events = [plain_event (Some ''A''), plain_event (Some ''B''), plain_event (Some ''A'')],
      eras = None, data_fields = ()\<rparr>"

definition vocabulary_data :: "(char, unit) timeline_data" where
  "vocabulary_data =
     \<lparr>events = [plain_event (Some ''b''), plain_event None, plain_event (Some ''ab''),
                plain_event (Some ''b''), plain_event (Some []), plain_event (Some ''B'')],
      eras = Some [plain_era (Some (plain_text (Some ''X''))), plain_era None,
                   plain_era (Some (plain_text None)), plain_era (Some (plain_text (Some ''X'')))],
      data_fields = ()\<rparr>"

definition status_data :: "(char, unit) timeline_data" where
  "status_data =
     \<lparr>events = [plain_event (Some ''A''), plain_event (Some ''B''), plain_event (Some ''A''),
                plain_event None, plain_event (Some ''B''), plain_event (Some ''A''),
                plain_event (Some ''C''), plain_event (Some ''B''), plain_event (Some ''A''),
                plain_event (Some ''C'')],
      eras = Some [plain_era (Some (plain_text (Some ''X''))),
                   plain_era (Some (plain_text (Some ''Y''))),
                   plain_era (Some (plain_text None))],
      data_fields = ()\<rparr>"

definition era_without_text_data :: "(char, unit) timeline_data" where
  "era_without_text_data =
     \<lparr>events = [plain_event (Some ''A'')],
      eras = Some [plain_era (Some (plain_text (Some ''E''))), plain_era None],
      data_fields = ()\<rparr>"

definition titled_data :: "(char, string) timeline_data" where
  "titled_data =
     \<lparr>events = [\<lparr>group = Some ''A'', event_fields = ''first''\<rparr>,
                \<lparr>group = None, event_fields = ''second''\<rparr>,
                \<lparr>group = Some ''B'', event_fields = ''third''\<rparr>],
      eras = Some [\<lparr>text' = Some \<lparr>headline = Some ''X'', text_fields = ''body''\<rparr>,
                    era_fields = ''1990''\<rparr>],
      data_fields = ''My timeline''\<rparr>"

section \<open>Properties\<close>

subsection \<open>What each method leaves unchanged\<close>

lemma updateFilterStatus_frame:
  "originalData (updateFilterStatus s) = originalData s"
  "currentData (updateFilterStatus s) = currentData s"
  "timeline (updateFilterStatus s) = timeline s"
  "activeGroupFilters (updateFilterStatus s) = activeGroupFilters s"
  "activeEraFilters (updateFilterStatus s) = activeEraFilters s"
  "group_filters (updateFilterStatus s) = group_filters s"
  "era_filters (updateFilterStatus s) = era_filters s"
  by (simp_all add: updateFilterStatus_def Let_def)

lemma recreateTimeline_frame:
  "originalData (recreateTimeline s) = originalData s"
  "currentData (recreateTimeline s) = currentData s"
  "timeline (recreateTimeline s) = Some (currentData s)"
  "activeGroupFilters (recreateTimeline s) = activeGroupFilters s"
  "activeEraFilters (recreateTimeline s) = activeEraFilters s"
  "group_filters (recreateTimeline s) = group_filters s"
  "era_filters (recreateTimeline s) = era_filters s"
  "filter_status (recreateTimeline s) = filter_status s"
  by (simp_all add: recreateTimeline_def createTimeline_def)

lemmas frame = updateFilterStatus_frame recreateTimeline_frame

lemma applyFilters_originalData:
  "originalData (state_of (applyFilters s)) = originalData s"
  by (simp add: applyFilters_def Let_def frame split: option.splits sum.splits)

lemma applyFilters_active:
  "activeGroupFilters (state_of (applyFilters s)) = activeGroupFilters s"
  "activeEraFilters (state_of (applyFilters s)) = activeEraFilters s"
  by (simp_all add: applyFilters_def Let_def frame split: option.splits sum.splits)

lemma applyFilters_buttons:
  "group_filters (state_of (applyFilters s)) = group_filters s"
  "era_filters (state_of (applyFilters s)) = era_filters s"
  by (simp_all add: applyFilters_def Let_def frame split: option.splits sum.splits)

lemma applyFilters_events:
  "events (currentData (state_of (applyFilters s))) =
     (if activeGroupFilters s = {} then events (originalData s)
      else filter (\<lambda>event. has (activeGroupFilters s) (group event)) (events (originalData s)))"
  by (simp add: applyFilters_def Let_def frame split: option.splits sum.splits)

lemma applyFilters_data_fields:
  "data_fields (currentData (state_of (applyFilters s))) = data_fields (originalData s)"
  by (simp add: applyFilters_def Let_def frame split: option.splits sum.splits)

lemma filter_eras_Inr:
  "filter_eras A es = Inr kept \<Longrightarrow>
     list_all (\<lambda>era. text' era \<noteq> None) es \<and>
     kept = filter (\<lambda>era. case text' era of None \<Rightarrow> False | Some t \<Rightarrow> has A (headline t)) es"
  by (induction es arbitrary: kept) (auto split: option.splits sum.splits)

lemma filter_eras_Inl:
  "filter_eras A es = Inl e \<Longrightarrow> e = TypeError \<and> \<not> list_all (\<lambda>era. text' era \<noteq> None) es"
  by (induction es) (auto split: option.splits sum.splits)

lemma filter_eras_total:
  "list_all (\<lambda>era. text' era \<noteq> None) es \<Longrightarrow>
     filter_eras A es = Inr (filter (\<lambda>era. case text' era of None \<Rightarrow> False | Some t \<Rightarrow> has A (headline t)) es)"
  by (induction es) (auto split: option.splits sum.splits)

lemma applyFilters_eras:
  "eras (currentData (state_of (applyFilters s))) =
     (case eras (originalData s) of
        None \<Rightarrow> None
      | Some es \<Rightarrow>
          if activeEraFilters s = {} then Some es
          else (case filter_eras (activeEraFilters s) es of
                  Inl e \<Rightarrow> Some es
                | Inr kept \<Rightarrow> Some kept))"
  by (simp add: applyFilters_def Let_def frame split: option.splits sum.splits)

lemma applyFilters_returns_iff:
  "returns (applyFilters s) \<longleftrightarrow>
     (activeEraFilters s = {} \<or>
      (case eras (originalData s) of None \<Rightarrow> True
       | Some es \<Rightarrow> list_all (\<lambda>era. text' era \<noteq> None) es))"
  by (auto simp add: applyFilters_def Let_def frame split: option.splits sum.splits
      dest: filter_eras_Inr filter_eras_Inl)

lemma applyFilters_timeline:
  "applyFilters s = Returns s' \<Longrightarrow> timeline s' = Some (currentData s')"
  by (auto simp add: applyFilters_def Let_def frame split: option.splits sum.splits if_splits)

lemma timeline_data_eqI:
  "events a = events b \<Longrightarrow> eras a = eras b \<Longrightarrow> data_fields a = data_fields b \<Longrightarrow> a = (b :: ('u,'x) timeline_data)"
  by simp

lemma applyFilters_currentData_cong:
  assumes "originalData s = originalData t"
    and "activeGroupFilters s = activeGroupFilters t"
    and "activeEraFilters s = activeEraFilters t"
  shows "currentData (state_of (applyFilters s)) = currentData (state_of (applyFilters t))"
  by (rule timeline_data_eqI)
     (unfold applyFilters_events applyFilters_eras applyFilters_data_fields assms, (rule refl)+)

lemma constructor_fields:
  "originalData (constructor D) = D"
  "currentData (constructor D) = D"
  "timeline (constructor D) = Some D"
  "activeGroupFilters (constructor D) = {}"
  "activeEraFilters (constructor D) = {}"
  "filter_status (constructor D) = ''Showing all events''"
  by (simp_all add: constructor_def init_def updateFilterStatus_def createTimeline_def
      generateFilterButtons_def generateEraButtons_def generateGroupButtons_def Let_def)

lemma perform_originalData: "originalData (state_of (perform a s)) = originalData s"
  by (cases a)
     (simp_all add: toggleGroupFilter_def toggleEraFilter_def clearGroupFilters_def
        clearEraFilters_def applyFilters_originalData)

lemma run_originalData: "originalData (run acts s) = originalData s"
  by (induction acts arbitrary: s) (simp_all add: perform_originalData)

lemma applyFilters_idem:
  "currentData (state_of (applyFilters (state_of (applyFilters s)))) =
   currentData (state_of (applyFilters s))"
  by (rule applyFilters_currentData_cong)
     (simp_all add: applyFilters_originalData applyFilters_active)

lemma perform_in_sync:
  "currentData (state_of (applyFilters (state_of (perform a s)))) =
   currentData (state_of (perform a s))"
  by (cases a)
     (simp_all add: toggleGroupFilter_def toggleEraFilter_def clearGroupFilters_def
        clearEraFilters_def applyFilters_idem)

lemma constructor_in_sync:
  "currentData (state_of (applyFilters (constructor D))) = currentData (constructor D)"
  by (rule timeline_data_eqI)
     (simp_all add: applyFilters_events applyFilters_eras applyFilters_data_fields
        constructor_fields split: option.splits)

lemma run_in_sync:
  "currentData (state_of (applyFilters s)) = currentData s \<Longrightarrow>
   currentData (state_of (applyFilters (run acts s))) = currentData (run acts s)"
  by (induction acts arbitrary: s) (simp_all add: perform_in_sync)

lemma Set_add_set: "set (Set_add x xs) = insert x (set xs)"
  by (auto simp add: Set_add_def)

lemma Set_add_distinct: "distinct xs \<Longrightarrow> distinct (Set_add x xs)"
  by (simp add: Set_add_def)

lemma groups_foldl_set:
  "set (foldl (\<lambda>groups event.
                 case group event of
                   None \<Rightarrow> groups
                 | Some g \<Rightarrow> if truthy (Some g) then Set_add g groups else groups) acc evs) =
   set acc \<union> {g. g \<noteq> [] \<and> (\<exists>event \<in> set evs. group event = Some g)}"
  by (induction evs arbitrary: acc)
     (auto simp add: Set_add_set truthy_def split: option.splits if_splits)

lemma groups_foldl_distinct:
  "distinct acc \<Longrightarrow>
   distinct (foldl (\<lambda>groups event.
                 case group event of
                   None \<Rightarrow> groups
                 | Some g \<Rightarrow> if truthy (Some g) then Set_add g groups else groups) acc evs)"
  by (induction evs arbitrary: acc)
     (auto simp add: Set_add_distinct split: option.splits)

lemma eras_foldl_set:
  "set (foldl (\<lambda>acc era.
                 case text' era of
                   None \<Rightarrow> acc
                 | Some t \<Rightarrow>
                     (case headline t of
                        None \<Rightarrow> acc
                      | Some h \<Rightarrow> if truthy (Some h) then Set_add h acc else acc)) acc es) =
   set acc \<union> {h. h \<noteq> [] \<and> (\<exists>era \<in> set es. \<exists>t. text' era = Some t \<and> headline t = Some h)}"
  by (induction es arbitrary: acc)
     (auto simp add: Set_add_set truthy_def split: option.splits if_splits)

lemma eras_foldl_distinct:
  "distinct acc \<Longrightarrow>
   distinct (foldl (\<lambda>acc era.
                 case text' era of
                   None \<Rightarrow> acc
                 | Some t \<Rightarrow>
                     (case headline t of
                        None \<Rightarrow> acc
                      | Some h \<Rightarrow> if truthy (Some h) then Set_add h acc else acc)) acc es)"
  by (induction es arbitrary: acc)
     (auto simp add: Set_add_distinct split: option.splits)

lemma digit_value: "d < 10 \<Longrightarrow> (of_char (digit d) :: nat) = 48 + d"
proof -
  have "\<forall>d \<in> set [0..<10]. (of_char (digit d) :: nat) = 48 + d"
    by (simp add: upt_rec digit_def)
  then show "d < 10 \<Longrightarrow> (of_char (digit d) :: nat) = 48 + d"
    by simp
qed

lemma showNat_decimal:
  "foldl (\<lambda>a c. 10 * a + (of_char c - 48)) 0 (showNat n) = n"
proof (induction n rule: showNat.induct)
  case (1 n)
  show ?case
  proof (cases "n < 10")
    case True
    then show ?thesis by (simp add: showNat.simps digit_value)
  next
    case False
    with 1 show ?thesis
      by (subst showNat.simps) (simp add: digit_value)
  qed
qed

lemmas plain_defs = plain_event_def plain_era_def plain_text_def
lemmas handler_defs = toggleGroupFilter_def toggleEraFilter_def clearGroupFilters_def clearEraFilters_def
lemmas init_defs = constructor_def init_def createTimeline_def recreateTimeline_def
      generateFilterButtons_def generateEraButtons_def generateGroupButtons_def
      getUniqueGroups_def getUniqueEras_def Set_add_def truthy_def

lemma generateGroupButtons_originalData:
  "originalData (generateGroupButtons s) = originalData s"
  by (simp add: generateGroupButtons_def)

lemma groups_vocabulary:
  fixes s :: "('u::linorder, 'x) TimelineFilter"
  shows "sorted (getUniqueGroups s)" "distinct (getUniqueGroups s)"
    "set (getUniqueGroups s) =
       {g. g \<noteq> [] \<and> (\<exists>event \<in> set (events (originalData s)). group event = Some g)}"
  by (simp_all add: getUniqueGroups_def groups_foldl_set groups_foldl_distinct)

lemma eras_vocabulary:
  fixes s :: "('u::linorder, 'x) TimelineFilter"
  shows "sorted (getUniqueEras s)" "distinct (getUniqueEras s)"
    "set (getUniqueEras s) =
       {h. h \<noteq> [] \<and> (\<exists>era \<in> set (case eras (originalData s) of None \<Rightarrow> [] | Some es \<Rightarrow> es).
                          \<exists>t. text' era = Some t \<and> headline t = Some h)}"
  by (cases "eras (originalData s)"; simp add: getUniqueEras_def eras_foldl_set eras_foldl_distinct)+

lemmas eval_defs = handler_defs init_defs applyFilters_def updateFilterStatus_def Let_def
  has_def plain_defs showNat.simps digit_def

lemma filter_eras_subseq: "filter_eras A es = Inr kept \<Longrightarrow> subseq kept es"
  by (auto dest: filter_eras_Inr)

lemma toggleGroupFilter_twice:
  "activeGroupFilters (state_of (toggleGroupFilter l (state_of (toggleGroupFilter l s)))) =
     activeGroupFilters s"
  "activeEraFilters (state_of (toggleGroupFilter l (state_of (toggleGroupFilter l s)))) =
     activeEraFilters s"
  "originalData (state_of (toggleGroupFilter l (state_of (toggleGroupFilter l s)))) =
     originalData s"
  by (auto simp add: toggleGroupFilter_def applyFilters_active applyFilters_originalData)

lemma toggleEraFilter_twice:
  "activeGroupFilters (state_of (toggleEraFilter l (state_of (toggleEraFilter l s)))) =
     activeGroupFilters s"
  "activeEraFilters (state_of (toggleEraFilter l (state_of (toggleEraFilter l s)))) =
     activeEraFilters s"
  "originalData (state_of (toggleEraFilter l (state_of (toggleEraFilter l s)))) =
     originalData s"
  by (auto simp add: toggleEraFilter_def applyFilters_active applyFilters_originalData)

lemma toggle_in_sync:
  "currentData (state_of (applyFilters (state_of (toggleGroupFilter l s)))) =
   currentData (state_of (toggleGroupFilter l s))"
  "currentData (state_of (applyFilters (state_of (toggleEraFilter l s)))) =
   currentData (state_of (toggleEraFilter l s))"
  using perform_in_sync [of "ToggleGroup l" s] perform_in_sync [of "ToggleEra l" s]
  by simp_all

lemma toggleGroupFilter_twice_view:
  "currentData (state_of (toggleGroupFilter l (state_of (toggleGroupFilter l s)))) =
   currentData (state_of (applyFilters s))"
  unfolding toggle_in_sync(1) [of l "state_of (toggleGroupFilter l s)", symmetric]
  by (rule applyFilters_currentData_cong) (simp_all add: toggleGroupFilter_twice)

lemma toggleEraFilter_twice_view:
  "currentData (state_of (toggleEraFilter l (state_of (toggleEraFilter l s)))) =
   currentData (state_of (applyFilters s))"
  unfolding toggle_in_sync(2) [of l "state_of (toggleEraFilter l s)", symmetric]
  by (rule applyFilters_currentData_cong) (simp_all add: toggleEraFilter_twice)

subsection \<open>The era filter\<close>

text \<open>
  \<open>applyFilters\<close> returns exactly when no era filter is active, the data has no eras, or
  every era has a \<^verbatim>\<open>text\<close> object (\<open>applyFilters_returns_iff\<close>); so does every handler.
  Where every era has one, an era is kept by an active era filter if and only if its
  headline is one of the active labels.
\<close>

lemma perform_returns_iff:
  "returns (perform a s) \<longleftrightarrow>
     (activeEraFilters (state_of (perform a s)) = {} \<or>
      (case eras (originalData s) of None \<Rightarrow> True
       | Some es \<Rightarrow> list_all (\<lambda>era. text' era \<noteq> None) es))"
  by (cases a)
     (simp_all add: handler_defs applyFilters_returns_iff applyFilters_active)

lemma applyFilters_eras_with_text:
  assumes "eras (originalData s) = Some es"
    and "list_all (\<lambda>era. text' era \<noteq> None) es"
    and "activeEraFilters s \<noteq> {}"
  shows "returns (applyFilters s)"
    and "eras (currentData (state_of (applyFilters s))) =
           Some (filter (\<lambda>era. \<exists>t h. text' era = Some t \<and> headline t = Some h \<and>
                                      h \<in> activeEraFilters s) es)"
proof -
  show "returns (applyFilters s)"
    using assms by (simp add: applyFilters_returns_iff)
  have "(case text' era of None \<Rightarrow> False | Some t \<Rightarrow> has (activeEraFilters s) (headline t)) \<longleftrightarrow>
        (\<exists>t h. text' era = Some t \<and> headline t = Some h \<and> h \<in> activeEraFilters s)"
    for era :: "('a, 'b) era"
    by (auto simp add: has_def split: option.splits)
  then show "eras (currentData (state_of (applyFilters s))) =
           Some (filter (\<lambda>era. \<exists>t h. text' era = Some t \<and> headline t = Some h \<and>
                                      h \<in> activeEraFilters s) es)"
    using assms by (simp add: applyFilters_eras filter_eras_total)
qed

lemma applyFilters_throws:
  assumes "eras (originalData s) = Some es"
    and "\<not> list_all (\<lambda>era. text' era \<noteq> None) es"
    and "activeEraFilters s \<noteq> {}"
  shows "\<exists>s'. applyFilters s = Throws TypeError s' \<and> eras (currentData s') = Some es \<and>
              timeline s' = timeline s \<and> filter_status s' = filter_status s"
proof (cases "filter_eras (activeEraFilters s) es")
  case (Inl e)
  then have "e = TypeError"
    by (simp add: filter_eras_Inl)
  with Inl assms show ?thesis
    by (simp add: applyFilters_def Let_def)
next
  case (Inr kept)
  with assms show ?thesis
    by (auto dest: filter_eras_Inr)
qed

subsection \<open>Claims\<close>

text \<open>
  Claim C1 (fault at an era with no \<^verbatim>\<open>text\<close>). The dataset has one era with the
  headline E and one era with no \<^verbatim>\<open>text\<close> object. Pressing the button of E throws a
  \<^verbatim>\<open>TypeError\<close>: the label is in the active set and its button is active, but the
  filtered data, the widget and the status line are as the constructor left them.
\<close>

theorem toggleEraFilter_throws_without_text:
  "toggleEraFilter ''E'' (constructor era_without_text_data) =
     Throws TypeError
       ((constructor era_without_text_data)
          \<lparr>activeEraFilters := {''E''},
           era_filters := [ShowAll, FilterBtn ''E'' True]\<rparr>)"
  by (simp add: eval_defs era_without_text_data_def)

text \<open>
  Claim C2 (the era with no \<^verbatim>\<open>text\<close> is not dropped). For the same dataset the era
  vocabulary is E alone; the toggle of E does not return, and the era with no \<^verbatim>\<open>text\<close>
  is still among the eras of the current data and of the data the widget shows.
\<close>

theorem era_without_text_not_dropped:
  "getUniqueEras (constructor era_without_text_data) = [''E''] \<and>
   returns (toggleEraFilter ''E'' (constructor era_without_text_data)) = False \<and>
   eras (currentData (state_of (toggleEraFilter ''E'' (constructor era_without_text_data)))) =
     Some [plain_era (Some (plain_text (Some ''E''))), plain_era None] \<and>
   timeline (state_of (toggleEraFilter ''E'' (constructor era_without_text_data))) =
     Some era_without_text_data"
  by (simp add: eval_defs era_without_text_data_def)

text \<open>
  Claim C3. With no active group label \<open>applyFilters\<close> keeps every event. With some, it
  keeps exactly the events whose \<^verbatim>\<open>group\<close> is an active label: every kept event has an
  active group, and an event with no group or with a group that is not active is
  dropped. This holds for the data \<open>applyFilters\<close> leaves whether it returns or
  throws in the era filter, which runs after the events are filtered.
\<close>

theorem applyFilters_events_by_group:
  "(activeGroupFilters s = {} \<longrightarrow>
      events (currentData (state_of (applyFilters s))) = events (originalData s)) \<and>
   (activeGroupFilters s \<noteq> {} \<longrightarrow>
      events (currentData (state_of (applyFilters s))) =
        filter (\<lambda>event. \<exists>g \<in> activeGroupFilters s. group event = Some g)
               (events (originalData s)) \<and>
      (\<forall>event \<in> set (events (currentData (state_of (applyFilters s)))).
         \<exists>g \<in> activeGroupFilters s. group event = Some g) \<and>
      (\<forall>event \<in> set (events (originalData s)).
         group event = None \<longrightarrow> event \<notin> set (events (currentData (state_of (applyFilters s))))) \<and>
      (\<forall>event \<in> set (events (originalData s)).
         \<forall>g. group event = Some g \<and> g \<notin> activeGroupFilters s \<longrightarrow>
           event \<notin> set (events (currentData (state_of (applyFilters s))))))"
proof -
  have "has (activeGroupFilters s) (group event) \<longleftrightarrow>
        (\<exists>g \<in> activeGroupFilters s. group event = Some g)" for event :: "('a, 'b) event"
    by (auto simp add: has_def split: option.splits)
  then show ?thesis
    by (auto simp add: applyFilters_events)
qed

theorem applyFilters_events_by_group_witness:
  "events (currentData (state_of (toggleGroupFilter ''A'' (constructor scenario_data)))) =
     [plain_event (Some ''A''), plain_event (Some ''A'')] \<and>
   events (currentData (state_of (toggleGroupFilter ''A''
     (state_of (toggleGroupFilter ''A'' (constructor scenario_data)))))) =
     [plain_event (Some ''A''), plain_event (Some ''B''), plain_event (Some ''A'')] \<and>
   events (currentData (state_of (toggleGroupFilter ''A'' (constructor status_data)))) =
     [plain_event (Some ''A''), plain_event (Some ''A''), plain_event (Some ''A''),
      plain_event (Some ''A'')]"
proof -
  let ?s = "constructor scenario_data"
  let ?s1 = "?s\<lparr>activeGroupFilters := insert ''A'' (activeGroupFilters ?s),
                  group_filters := map (classList_set ''A'' True) (group_filters ?s)\<rparr>"
  let ?t1 = "state_of (applyFilters ?s1)"
  let ?s2 = "?t1\<lparr>activeGroupFilters := activeGroupFilters ?t1 - {''A''},
                   group_filters := map (classList_set ''A'' False) (group_filters ?t1)\<rparr>"
  let ?u = "constructor status_data"
  let ?u1 = "?u\<lparr>activeGroupFilters := insert ''A'' (activeGroupFilters ?u),
                  group_filters := map (classList_set ''A'' True) (group_filters ?u)\<rparr>"
  show ?thesis
    using applyFilters_events_by_group [of ?s1] applyFilters_events_by_group [of ?s2]
      applyFilters_events_by_group [of ?u1]
    by (simp add: toggleGroupFilter_def constructor_fields applyFilters_originalData
        applyFilters_active scenario_data_def status_data_def plain_defs)
qed

text \<open>
  Claim C4. No handler changes \<open>originalData\<close>. After any sequence of button presses
  on a new object, \<open>originalData\<close> is the dataset the object was built from, and
  \<open>currentData\<close> is what \<open>applyFilters\<close> computes on a new object of that dataset with
  the two active sets of now: nothing of the earlier filtered data is in it.
\<close>

theorem filtered_view_function_of_selection:
  "originalData (state_of (perform a s)) = originalData s \<and>
   originalData (run acts (constructor D)) = D \<and>
   currentData (run acts (constructor D)) =
     currentData (state_of (applyFilters
       ((constructor D)\<lparr>activeGroupFilters := activeGroupFilters (run acts (constructor D)),
                        activeEraFilters := activeEraFilters (run acts (constructor D))\<rparr>)))"
proof -
  have "currentData (run acts (constructor D)) =
        currentData (state_of (applyFilters (run acts (constructor D))))"
    by (simp add: run_in_sync constructor_in_sync)
  also have "\<dots> = currentData (state_of (applyFilters
       ((constructor D)\<lparr>activeGroupFilters := activeGroupFilters (run acts (constructor D)),
                        activeEraFilters := activeEraFilters (run acts (constructor D))\<rparr>)))"
    by (rule applyFilters_currentData_cong) (simp_all add: run_originalData constructor_fields)
  finally show ?thesis
    by (simp add: perform_originalData run_originalData constructor_fields)
qed

theorem filtered_view_function_of_selection_witness:
  "originalData (run [ToggleGroup ''A'', ToggleEra ''X'', ClearGroups] (constructor status_data)) =
     status_data \<and>
   activeGroupFilters (run [ToggleGroup ''A'', ToggleEra ''X'', ClearGroups] (constructor status_data)) = {} \<and>
   activeEraFilters (run [ToggleGroup ''A'', ToggleEra ''X'', ClearGroups] (constructor status_data)) = {''X''} \<and>
   currentData (run [ToggleGroup ''A'', ToggleEra ''X'', ClearGroups] (constructor status_data)) =
     currentData (state_of (applyFilters ((constructor status_data)\<lparr>activeGroupFilters := {}, activeEraFilters := {''X''}\<rparr>))) \<and>
   currentData (run [ToggleGroup ''A'', ToggleEra ''X'', ClearGroups] (constructor status_data)) =
     status_data\<lparr>eras := Some [plain_era (Some (plain_text (Some ''X'')))]\<rparr>"
proof -
  let ?s = "run [ToggleGroup ''A'', ToggleEra ''X'', ClearGroups] (constructor status_data)"
  have sel: "activeGroupFilters ?s = {}" "activeEraFilters ?s = {''X''}"
    by (simp_all add: handler_defs applyFilters_active constructor_fields)
  have view: "currentData (state_of (applyFilters
       ((constructor status_data)\<lparr>activeGroupFilters := {}, activeEraFilters := {''X''}\<rparr>))) =
     status_data\<lparr>eras := Some [plain_era (Some (plain_text (Some ''X'')))]\<rparr>"
    by (rule timeline_data_eqI)
       (simp_all add: applyFilters_events applyFilters_eras applyFilters_data_fields
          constructor_fields status_data_def plain_defs has_def)
  from filtered_view_function_of_selection
         [where a = ClearGroups and s = "constructor status_data"
            and acts = "[ToggleGroup ''A'', ToggleEra ''X'', ClearGroups]" and D = status_data]
  show ?thesis
    unfolding sel view by simp
qed

text \<open>
  Claim C5. The group vocabulary holds each non-empty group label of the events exactly
  once (it is distinct, and its elements are those labels), in ascending lexicographic
  order; so does the era vocabulary for the non-empty headlines of the eras. Each is the
  sorted listing of its set of labels, whatever the order and the repetitions in the
  data. A dataset with no events has an empty group vocabulary, one with no eras an
  empty era vocabulary. The buttons generated for a region are its ``Show All'' button
  and one inactive button for each label of the vocabulary, in that order.
\<close>

theorem vocabulary_sorted_distinct:
  fixes s :: "('u::linorder, 'x) TimelineFilter"
  shows
    "sorted (getUniqueGroups s) \<and> distinct (getUniqueGroups s) \<and>
     set (getUniqueGroups s) =
       {g. g \<noteq> [] \<and> (\<exists>event \<in> set (events (originalData s)). group event = Some g)} \<and>
     getUniqueGroups s =
       sorted_list_of_set
         {g. g \<noteq> [] \<and> (\<exists>event \<in> set (events (originalData s)). group event = Some g)} \<and>
     sorted (getUniqueEras s) \<and> distinct (getUniqueEras s) \<and>
     set (getUniqueEras s) =
       {h. h \<noteq> [] \<and> (\<exists>era \<in> set (case eras (originalData s) of None \<Rightarrow> [] | Some es \<Rightarrow> es).
                          \<exists>t. text' era = Some t \<and> headline t = Some h)} \<and>
     getUniqueEras s =
       sorted_list_of_set
         {h. h \<noteq> [] \<and> (\<exists>era \<in> set (case eras (originalData s) of None \<Rightarrow> [] | Some es \<Rightarrow> es).
                          \<exists>t. text' era = Some t \<and> headline t = Some h)} \<and>
     (events (originalData s) = [] \<longrightarrow> getUniqueGroups s = []) \<and>
     (eras (originalData s) = None \<or> eras (originalData s) = Some [] \<longrightarrow> getUniqueEras s = []) \<and>
     group_filters (generateFilterButtons s) =
       ShowAll # map (\<lambda>g. FilterBtn g False) (getUniqueGroups s) \<and>
     era_filters (generateFilterButtons s) =
       ShowAll # map (\<lambda>e. FilterBtn e False) (getUniqueEras s)"
proof -
  have gb: "group_filters (generateFilterButtons s) =
       ShowAll # map (\<lambda>g. FilterBtn g False) (getUniqueGroups s)"
    using groups_vocabulary(3) [of s]
    by (auto simp add: generateFilterButtons_def generateEraButtons_def generateGroupButtons_def
        truthy_def filter_id_conv)
  have eb: "era_filters (generateFilterButtons s) =
       ShowAll # map (\<lambda>e. FilterBtn e False) (getUniqueEras s)"
    using eras_vocabulary(3) [of s] generateGroupButtons_originalData [of s]
    by (auto simp add: generateFilterButtons_def generateEraButtons_def getUniqueEras_def
        truthy_def filter_id_conv)
  have g: "getUniqueGroups s =
       sorted_list_of_set
         {g. g \<noteq> [] \<and> (\<exists>event \<in> set (events (originalData s)). group event = Some g)}"
    using groups_vocabulary [of s]
    by (metis sorted_list_of_set.idem_if_sorted_distinct)
  have e: "getUniqueEras s =
       sorted_list_of_set
         {h. h \<noteq> [] \<and> (\<exists>era \<in> set (case eras (originalData s) of None \<Rightarrow> [] | Some es \<Rightarrow> es).
                          \<exists>t. text' era = Some t \<and> headline t = Some h)}"
    using eras_vocabulary [of s]
    by (metis sorted_list_of_set.idem_if_sorted_distinct)
  have g0: "events (originalData s) = [] \<longrightarrow> getUniqueGroups s = []"
    by (simp add: getUniqueGroups_def)
  have e0: "eras (originalData s) = None \<or> eras (originalData s) = Some [] \<longrightarrow> getUniqueEras s = []"
    by (auto simp add: getUniqueEras_def)
  show ?thesis
    using groups_vocabulary [of s] eras_vocabulary [of s] g e g0 e0 gb eb by blast
qed

theorem vocabulary_sorted_distinct_witness:
  "getUniqueGroups (constructor vocabulary_data) = [''B'', ''ab'', ''b''] \<and>
   getUniqueEras (constructor vocabulary_data) = [''X''] \<and>
   getUniqueGroups (constructor scenario_data) = [''A'', ''B''] \<and>
   getUniqueEras (constructor scenario_data) = [] \<and>
   sorted (getUniqueGroups (constructor vocabulary_data)) \<and>
   distinct (getUniqueGroups (constructor vocabulary_data)) \<and>
   sorted (getUniqueEras (constructor vocabulary_data)) \<and>
   distinct (getUniqueEras (constructor vocabulary_data))"
proof -
  have "getUniqueGroups (constructor vocabulary_data) = [''B'', ''ab'', ''b'']"
    and "getUniqueEras (constructor vocabulary_data) = [''X'']"
    and "getUniqueGroups (constructor scenario_data) = [''A'', ''B'']"
    and "getUniqueEras (constructor scenario_data) = []"
    by (simp_all add: constructor_fields getUniqueGroups_def getUniqueEras_def Set_add_def
        truthy_def vocabulary_data_def scenario_data_def plain_defs)
  with vocabulary_sorted_distinct [of "constructor vocabulary_data"] show ?thesis
    by blast
qed

text \<open>
  Claim C6. With both active sets empty, \<open>applyFilters\<close> returns, and the current data
  (its events and its eras) and the data given to the widget are the original data.
\<close>

theorem empty_selection_identity:
  assumes "activeGroupFilters s = {}" and "activeEraFilters s = {}"
  shows "returns (applyFilters s) \<and>
         currentData (state_of (applyFilters s)) = originalData s \<and>
         events (currentData (state_of (applyFilters s))) = events (originalData s) \<and>
         eras (currentData (state_of (applyFilters s))) = eras (originalData s) \<and>
         timeline (state_of (applyFilters s)) = Some (originalData s)"
  using assms by (simp add: applyFilters_def Let_def frame)

theorem empty_selection_identity_witness:
  "activeGroupFilters (constructor status_data) = {} \<and>
   activeEraFilters (constructor status_data) = {} \<and>
   returns (applyFilters (constructor status_data)) \<and>
   currentData (state_of (applyFilters (constructor status_data))) = status_data \<and>
   events (currentData (state_of (applyFilters (constructor status_data)))) = events status_data \<and>
   eras (currentData (state_of (applyFilters (constructor status_data)))) = eras status_data"
  using empty_selection_identity [of "constructor status_data"]
  by (simp add: constructor_fields)

text \<open>
  Claim C7. Toggling a label twice, as a group or as an era, gives back both active
  sets, and leaves the current data that \<open>applyFilters\<close> computes for the state before;
  in a state reached by button presses on a new object that is the current data of
  before.
\<close>

theorem toggle_twice_restores:
  "activeGroupFilters (state_of (toggleGroupFilter l (state_of (toggleGroupFilter l t)))) =
     activeGroupFilters t \<and>
   activeEraFilters (state_of (toggleGroupFilter l (state_of (toggleGroupFilter l t)))) =
     activeEraFilters t \<and>
   currentData (state_of (toggleGroupFilter l (state_of (toggleGroupFilter l t)))) =
     currentData (state_of (applyFilters t)) \<and>
   activeGroupFilters (state_of (toggleEraFilter l (state_of (toggleEraFilter l t)))) =
     activeGroupFilters t \<and>
   activeEraFilters (state_of (toggleEraFilter l (state_of (toggleEraFilter l t)))) =
     activeEraFilters t \<and>
   currentData (state_of (toggleEraFilter l (state_of (toggleEraFilter l t)))) =
     currentData (state_of (applyFilters t)) \<and>
   currentData (state_of (toggleGroupFilter l (state_of (toggleGroupFilter l
       (run acts (constructor D)))))) =
     currentData (run acts (constructor D)) \<and>
   currentData (state_of (toggleEraFilter l (state_of (toggleEraFilter l
       (run acts (constructor D)))))) =
     currentData (run acts (constructor D))"
  by (simp add: toggleGroupFilter_twice_view toggleEraFilter_twice_view
      toggleGroupFilter_twice toggleEraFilter_twice run_in_sync constructor_in_sync)

theorem toggle_twice_restores_witness:
  "events (currentData (state_of (toggleGroupFilter ''A'' (constructor scenario_data)))) =
     [plain_event (Some ''A''), plain_event (Some ''A'')] \<and>
   currentData (state_of (toggleGroupFilter ''A''
       (state_of (toggleGroupFilter ''A'' (constructor scenario_data))))) = scenario_data \<and>
   activeGroupFilters (state_of (toggleGroupFilter ''A''
       (state_of (toggleGroupFilter ''A'' (constructor scenario_data))))) = {}"
proof -
  have "events (currentData (state_of (toggleGroupFilter ''A'' (constructor scenario_data)))) =
     [plain_event (Some ''A''), plain_event (Some ''A'')]"
    by (simp add: toggleGroupFilter_def applyFilters_events constructor_fields
        scenario_data_def has_def plain_defs)
  then show ?thesis
    using toggle_twice_restores [where l = "''A''" and t = "constructor scenario_data"
        and acts = "[]" and D = scenario_data]
    by (simp add: constructor_fields constructor_in_sync)
qed

text \<open>
  Claim C8. \<open>updateFilterStatus\<close> changes the status line only. It writes
  ``Showing all events'' when both active sets are empty; with active groups only,
  ``Showing f/t events''; with active eras only, ``Showing f/t eras''; with both, the two
  joined by a comma and a space. Here f and t are the lengths, in decimal
  (\<open>showNat_decimal\<close>), of the sequence in the current and in the original data, 0 for
  absent eras.
\<close>

theorem updateFilterStatus_text:
  "updateFilterStatus s =
     s\<lparr>filter_status :=
         (let filteredEvents = showNat (length (events (currentData s)));
              totalEvents = showNat (length (events (originalData s)));
              filteredEras = showNat (case eras (currentData s) of None \<Rightarrow> 0 | Some es \<Rightarrow> length es);
              totalEras = showNat (case eras (originalData s) of None \<Rightarrow> 0 | Some es \<Rightarrow> length es)
          in if activeGroupFilters s = {} \<and> activeEraFilters s = {}
             then ''Showing all events''
             else if activeEraFilters s = {}
             then ''Showing '' @ filteredEvents @ ''/'' @ totalEvents @ '' events''
             else if activeGroupFilters s = {}
             then ''Showing '' @ filteredEras @ ''/'' @ totalEras @ '' eras''
             else ''Showing '' @ filteredEvents @ ''/'' @ totalEvents @ '' events, '' @
                  filteredEras @ ''/'' @ totalEras @ '' eras'')\<rparr>"
  by (simp add: updateFilterStatus_def Let_def)

theorem updateFilterStatus_text_witness:
  "filter_status (state_of (toggleGroupFilter ''A'' (constructor status_data))) =
     ''Showing 4/10 events'' \<and>
   filter_status (updateFilterStatus (state_of (toggleGroupFilter ''A'' (constructor status_data)))) =
     ''Showing 4/10 events'' \<and>
   filter_status (state_of (toggleEraFilter ''X'' (constructor status_data))) =
     ''Showing 1/3 eras'' \<and>
   filter_status (state_of (toggleEraFilter ''X''
       (state_of (toggleGroupFilter ''A'' (constructor status_data))))) =
     ''Showing 4/10 events, 1/3 eras'' \<and>
   filter_status (state_of (clearGroupFilters
       (state_of (toggleGroupFilter ''A'' (constructor status_data))))) =
     ''Showing all events''"
proof -
  let ?s = "state_of (toggleGroupFilter ''A'' (constructor status_data))"
  have 1: "filter_status ?s = ''Showing 4/10 events''"
    by (simp add: eval_defs status_data_def)
  have 2: "filter_status (state_of (toggleEraFilter ''X'' (constructor status_data))) =
     ''Showing 1/3 eras''"
    by (simp add: eval_defs status_data_def)
  have 3: "filter_status (state_of (toggleEraFilter ''X'' ?s)) = ''Showing 4/10 events, 1/3 eras''"
    by (simp add: eval_defs status_data_def)
  have 4: "filter_status (state_of (clearGroupFilters ?s)) = ''Showing all events''"
    by (simp add: eval_defs status_data_def)
  have f: "activeGroupFilters ?s = {''A''}" "activeEraFilters ?s = {}"
    "length (events (currentData ?s)) = 4" "length (events (originalData ?s)) = 10"
    by (simp_all add: toggleGroupFilter_def applyFilters_active applyFilters_events
        applyFilters_originalData constructor_fields status_data_def has_def plain_defs)
  have "filter_status (updateFilterStatus ?s) = ''Showing 4/10 events''"
    by (subst updateFilterStatus_text) (simp add: f Let_def showNat.simps digit_def)
  with 1 2 3 4 show ?thesis by simp
qed

text \<open>
  Claim C9. The current data \<open>applyFilters\<close> leaves is the original data with its
  events and its eras replaced: the other properties are those of the original.
\<close>

theorem applyFilters_other_fields:
  "data_fields (currentData (state_of (applyFilters s))) = data_fields (originalData s) \<and>
   currentData (state_of (applyFilters s)) =
     (originalData s)\<lparr>events := events (currentData (state_of (applyFilters s))),
                      eras := eras (currentData (state_of (applyFilters s)))\<rparr>"
  by (simp add: applyFilters_data_fields)

theorem applyFilters_other_fields_witness:
  "data_fields (currentData (state_of (toggleGroupFilter ''A'' (constructor titled_data)))) =
     ''My timeline'' \<and>
   currentData (state_of (toggleGroupFilter ''A'' (constructor titled_data))) =
     titled_data\<lparr>events := [\<lparr>group = Some ''A'', event_fields = ''first''\<rparr>]\<rparr>"
proof -
  let ?s = "constructor titled_data"
  let ?s1 = "?s\<lparr>activeGroupFilters := insert ''A'' (activeGroupFilters ?s),
                  group_filters := map (classList_set ''A'' True) (group_filters ?s)\<rparr>"
  have ev: "events (currentData (state_of (applyFilters ?s1))) =
              [\<lparr>group = Some ''A'', event_fields = ''first''\<rparr>]"
    and er: "eras (currentData (state_of (applyFilters ?s1))) = eras titled_data"
    by (simp_all add: applyFilters_events applyFilters_eras constructor_fields titled_data_def has_def)
  from applyFilters_other_fields [of ?s1] show ?thesis
    unfolding ev er by (simp add: toggleGroupFilter_def constructor_fields titled_data_def)
qed

text \<open>
  Claim C10. The events of the current data are a subsequence of the original events,
  and the eras, where the data has eras, a subsequence of the original eras: records
  are removed, never reordered.
\<close>

theorem applyFilters_keeps_order:
  "subseq (events (currentData (state_of (applyFilters s)))) (events (originalData s)) \<and>
   rel_option subseq (eras (currentData (state_of (applyFilters s)))) (eras (originalData s))"
  by (auto simp add: applyFilters_events applyFilters_eras filter_eras_subseq
      split: option.splits sum.splits)

theorem applyFilters_keeps_order_witness:
  "subseq (events (currentData (state_of (toggleGroupFilter ''B'' (constructor status_data)))))
          (events status_data) \<and>
   events (currentData (state_of (toggleGroupFilter ''B'' (constructor status_data)))) =
     [events status_data ! 1, events status_data ! 4, events status_data ! 7] \<and>
   eras (currentData (state_of (toggleEraFilter ''Y'' (constructor status_data)))) =
     Some [plain_era (Some (plain_text (Some ''Y'')))]"
proof -
  let ?s = "constructor status_data"
  let ?s1 = "?s\<lparr>activeGroupFilters := insert ''B'' (activeGroupFilters ?s),
                  group_filters := map (classList_set ''B'' True) (group_filters ?s)\<rparr>"
  have "events (currentData (state_of (applyFilters ?s1))) =
     [events status_data ! 1, events status_data ! 4, events status_data ! 7]"
    by (simp add: applyFilters_events constructor_fields status_data_def has_def plain_defs)
  moreover have "eras (currentData (state_of (toggleEraFilter ''Y'' (constructor status_data)))) =
     Some [plain_era (Some (plain_text (Some ''Y'')))]"
    by (simp add: toggleEraFilter_def applyFilters_eras constructor_fields status_data_def has_def plain_defs)
  ultimately show ?thesis
    using applyFilters_keeps_order [of ?s1]
    by (simp add: toggleGroupFilter_def constructor_fields)
qed

end
